theory Spec2Isabelle
  imports Complex_Main "HOL-Library.Sublist"
begin

text \<open>
  The MeetSync relay server: an Express application that creates Zoom meetings and Stripe
  checkout sessions. The repository holds three copies of \<^verbatim>\<open>server/index.js\<close>; the one
  modelled is \<^verbatim>\<open>src/unnamed/part_000\<close>, the fullest. Its token accessor
  \<^verbatim>\<open>getZoomAccessToken\<close> and its \<^verbatim>\<open>create-meeting\<close> handler read the same in
  \<^verbatim>\<open>src/index.js\<close>; \<^verbatim>\<open>src/server/index.js\<close> has the credentials written into the file and
  no check of them.
\<close>

section \<open>JavaScript values\<close>

text \<open>
  The server is JavaScript, and its control flow rests on the language's dynamic typing:
  \<^verbatim>\<open>accessToken && tokenExpiry\<close>, \<^verbatim>\<open>!!ZOOM_ACCOUNT_ID\<close>, \<^verbatim>\<open>amount || 149\<close>. Values are
  therefore modelled as JavaScript has them: the values JSON can carry, and
  \<^verbatim>\<open>undefined\<close> for an absent one.

  A number is \<open>NaN\<close> or a finite number, read as the rational it denotes; the infinities
  and the negative zero are outside the model. A string is the list of its
  UTF-8 bytes. An object is the list of its properties, looked up by key.
\<close>

datatype jsnum = NaN | Fin rat

datatype jsval =
    JUndefined
  | JNull
  | JBool bool
  | JNum jsnum
  | JStr string
  | JObj "(string \<times> jsval) list"
  | JArr "jsval list"

text \<open>Truthiness, as \<^verbatim>\<open>if (x)\<close>, \<^verbatim>\<open>!x\<close>, \<^verbatim>\<open>x && y\<close> and \<^verbatim>\<open>x || y\<close> test it.\<close>

fun truthy :: "jsval \<Rightarrow> bool" where
  "truthy JUndefined = False"
| "truthy JNull = False"
| "truthy (JBool b) = b"
| "truthy (JNum NaN) = False"
| "truthy (JNum (Fin q)) = (q \<noteq> 0)"
| "truthy (JStr s) = (s \<noteq> [])"
| "truthy (JObj kvs) = True"
| "truthy (JArr vs) = True"

text \<open>\<^verbatim>\<open>a || b\<close>.\<close>

definition js_or :: "jsval \<Rightarrow> jsval \<Rightarrow> jsval" where
  "js_or a b = (if truthy a then a else b)"

fun nullish :: "jsval \<Rightarrow> bool" where
  "nullish JUndefined = True"
| "nullish JNull = True"
| "nullish v = False"

text \<open>\<^verbatim>\<open>a < b\<close> on numbers: false when either is \<open>NaN\<close>.\<close>

fun num_less :: "jsnum \<Rightarrow> jsnum \<Rightarrow> bool" where
  "num_less (Fin a) (Fin b) = (a < b)"
| "num_less a b = False"

text \<open>\<^verbatim>\<open>Math.round\<close>: the nearest integer, a half rounded up (exact on every double).\<close>

fun Math_round :: "jsnum \<Rightarrow> jsnum" where
  "Math_round (Fin a) = Fin (of_int \<lfloor>a + 1 / 2\<rfloor>)"
| "Math_round NaN = NaN"

text \<open>Every string that occurs in a value, keys included.\<close>

fun strings_of :: "jsval \<Rightarrow> string list" where
  "strings_of (JStr s) = [s]"
| "strings_of (JObj kvs) = concat (map (\<lambda>kv. fst kv # strings_of (snd kv)) kvs)"
| "strings_of (JArr vs) = concat (map strings_of vs)"
| "strings_of v = []"

subsection \<open>Errors and the engine\<close>

text \<open>
  A thrown error is an \<^verbatim>\<open>Error\<close> object: its message and, on the errors axios rejects
  with when the upstream answered outside 2xx, the \<^verbatim>\<open>response\<close> (an object with
  \<^verbatim>\<open>status\<close> and \<^verbatim>\<open>data\<close>; \<^verbatim>\<open>undefined\<close> on every other error). A computation that can
  throw returns \<open>js_error + 'a\<close>, with \<open>Inl\<close> the error thrown.
\<close>

record js_error =
  message :: string
  response :: jsval

definition new_Error :: "string \<Rightarrow> js_error" where
  "new_Error m = \<lparr>message = m, response = JUndefined\<rparr>"

text \<open>
  What the code leaves to the JavaScript engine is a parameter of the model, and every
  theorem holds for every engine: the number a string converts to, the string a number
  prints as, the string an object or array converts to (\<open>Inl\<close> the message of the
  \<^verbatim>\<open>TypeError\<close> when it cannot be converted), the message of the \<^verbatim>\<open>TypeError\<close> raised
  when property \<open>k\<close> of \<open>v\<close> is read or called and cannot be, and the double an
  arithmetic operation rounds to when its result is not exact.
\<close>

datatype binop = OpAdd | OpSub | OpMul

record engine =
  StringToNumber :: "string \<Rightarrow> jsnum"
  NumberToString :: "jsnum \<Rightarrow> string"
  ObjectToString :: "jsval \<Rightarrow> string + string"
  TypeErrorMessage :: "jsval \<Rightarrow> string \<Rightarrow> string"
  RoundedOp :: "binop \<Rightarrow> rat \<Rightarrow> rat \<Rightarrow> jsnum"

text \<open>
  Numbers are doubles. An operation on integers of magnitude at most \<open>2^53\<close> whose result
  is such an integer is exact; that is where the model computes \<^verbatim>\<open>+\<close>, \<^verbatim>\<open>-\<close> and \<^verbatim>\<open>*\<close>
  itself. Everywhere else the result is the double the engine rounds to, which the
  model does not compute: nothing is proved of it.
\<close>

definition exact_int :: "rat \<Rightarrow> bool" where
  "exact_int q = (of_int \<lfloor>q\<rfloor> = q \<and> \<bar>q\<bar> \<le> 9007199254740992)"

fun num_add :: "engine \<Rightarrow> jsnum \<Rightarrow> jsnum \<Rightarrow> jsnum" where
  "num_add E (Fin a) (Fin b) =
     (if exact_int a \<and> exact_int b \<and> exact_int (a + b) then Fin (a + b)
      else RoundedOp E OpAdd a b)"
| "num_add E a b = NaN"

fun num_sub :: "engine \<Rightarrow> jsnum \<Rightarrow> jsnum \<Rightarrow> jsnum" where
  "num_sub E (Fin a) (Fin b) =
     (if exact_int a \<and> exact_int b \<and> exact_int (a - b) then Fin (a - b)
      else RoundedOp E OpSub a b)"
| "num_sub E a b = NaN"

fun num_mul :: "engine \<Rightarrow> jsnum \<Rightarrow> jsnum \<Rightarrow> jsnum" where
  "num_mul E (Fin a) (Fin b) =
     (if exact_int a \<and> exact_int b \<and> exact_int (a * b) then Fin (a * b)
      else RoundedOp E OpMul a b)"
| "num_mul E a b = NaN"

definition TypeError :: "engine \<Rightarrow> jsval \<Rightarrow> string \<Rightarrow> js_error" where
  "TypeError E v k = new_Error (TypeErrorMessage E v k)"

text \<open>
  \<^verbatim>\<open>v.k\<close>: a \<^verbatim>\<open>TypeError\<close> on \<^verbatim>\<open>null\<close> and \<^verbatim>\<open>undefined\<close>, the property of an object
  (\<^verbatim>\<open>undefined\<close> when it has none), and \<^verbatim>\<open>undefined\<close> on every other value: none of
  the keys the server reads is a built-in property of a string, number, boolean or
  array. \<^verbatim>\<open>v?.k\<close> is \<^verbatim>\<open>undefined\<close> on \<^verbatim>\<open>null\<close> and \<^verbatim>\<open>undefined\<close> instead of throwing.
\<close>

fun get :: "engine \<Rightarrow> jsval \<Rightarrow> string \<Rightarrow> js_error + jsval" where
  "get E JUndefined k = Inl (TypeError E JUndefined k)"
| "get E JNull k = Inl (TypeError E JNull k)"
| "get E (JObj kvs) k = Inr (case map_of kvs k of None \<Rightarrow> JUndefined | Some v \<Rightarrow> v)"
| "get E v k = Inr JUndefined"

fun get_opt :: "jsval \<Rightarrow> string \<Rightarrow> jsval" where
  "get_opt (JObj kvs) k = (case map_of kvs k of None \<Rightarrow> JUndefined | Some v \<Rightarrow> v)"
| "get_opt v k = JUndefined"

text \<open>The conversions \<^verbatim>\<open>ToNumber\<close> (of \<^verbatim>\<open>-\<close> and \<^verbatim>\<open>*\<close>) and \<^verbatim>\<open>ToString\<close> (of
  \<^verbatim>\<open>String(x)\<close>, a template literal, and \<^verbatim>\<open>+\<close> with a string operand).\<close>

fun ToNumber :: "engine \<Rightarrow> jsval \<Rightarrow> js_error + jsnum" where
  "ToNumber E JUndefined = Inr NaN"
| "ToNumber E JNull = Inr (Fin 0)"
| "ToNumber E (JBool b) = Inr (Fin (if b then 1 else 0))"
| "ToNumber E (JNum n) = Inr n"
| "ToNumber E (JStr s) = Inr (StringToNumber E s)"
| "ToNumber E v =
     (case ObjectToString E v of
        Inl m \<Rightarrow> Inl (new_Error m)
      | Inr s \<Rightarrow> Inr (StringToNumber E s))"

fun ToString :: "engine \<Rightarrow> jsval \<Rightarrow> js_error + string" where
  "ToString E JUndefined = Inr ''undefined''"
| "ToString E JNull = Inr ''null''"
| "ToString E (JBool b) = Inr (if b then ''true'' else ''false'')"
| "ToString E (JNum n) = Inr (NumberToString E n)"
| "ToString E (JStr s) = Inr s"
| "ToString E v =
     (case ObjectToString E v of
        Inl m \<Rightarrow> Inl (new_Error m)
      | Inr s \<Rightarrow> Inr s)"

text \<open>\<^verbatim>\<open>v.substring(0, n)\<close>: the method of a string; on any other value the call throws.\<close>

fun substring0 :: "engine \<Rightarrow> jsval \<Rightarrow> nat \<Rightarrow> js_error + string" where
  "substring0 E (JStr s) n = Inr (take n s)"
| "substring0 E v n = Inl (TypeError E v ''substring'')"

subsection \<open>Base64\<close>

text \<open>\<^verbatim>\<open>Buffer.from(s).toString('base64')\<close>: three bytes become four characters of the
  alphabet, the last group padded with \<^verbatim>\<open>=\<close>.\<close>

definition b64_char :: "nat \<Rightarrow> char" where
  "b64_char n =
     ''ABCDEFGHIJKLMNOPQRSTUVWXYZabcdefghijklmnopqrstuvwxyz0123456789+/'' ! (n mod 64)"

fun b64_bytes :: "nat list \<Rightarrow> string" where
  "b64_bytes (a # b # c # rest) =
     b64_char (a div 4) # b64_char ((a mod 4) * 16 + b div 16)
       # b64_char ((b mod 16) * 4 + c div 64) # b64_char (c mod 64) # b64_bytes rest"
| "b64_bytes [a, b] =
     [b64_char (a div 4), b64_char ((a mod 4) * 16 + b div 16),
      b64_char ((b mod 16) * 4), CHR ''='']"
| "b64_bytes [a] = [b64_char (a div 4), b64_char ((a mod 4) * 16), CHR ''='', CHR ''='']"
| "b64_bytes [] = []"

definition base64 :: "string \<Rightarrow> string" where
  "base64 s = b64_bytes (map of_char s)"

section \<open>The Zoom access-token cache\<close>

text \<open>
  The process environment holds each credential as a string, or not at all. The code
  calls a variable that is absent or empty \<^emph>\<open>not set\<close> (\<^verbatim>\<open>'STRIPE_SECRET_KEY not set'\<close>,
  \<^verbatim>\<open>ZOOM_ACCOUNT_ID ? 'Set' : 'Missing'\<close>): it tests them by truthiness.
\<close>

record env =
  ZOOM_ACCOUNT_ID :: "string option"
  ZOOM_CLIENT_ID :: "string option"
  ZOOM_CLIENT_SECRET :: "string option"
  STRIPE_SECRET_KEY :: "string option"
  STRIPE_WEBHOOK_SECRET :: "string option"

definition env_value :: "string option \<Rightarrow> jsval" where
  "env_value x = (case x of None \<Rightarrow> JUndefined | Some s \<Rightarrow> JStr s)"

text \<open>A variable is set when it is present and not empty.\<close>

definition is_set :: "string option \<Rightarrow> bool" where
  "is_set x = (case x of None \<Rightarrow> False | Some s \<Rightarrow> s \<noteq> [])"

text \<open>An environment value inside a template literal.\<close>

definition interpolate :: "string option \<Rightarrow> string" where
  "interpolate x = (case x of None \<Rightarrow> ''undefined'' | Some s \<Rightarrow> s)"

text \<open>
  The cache is the two module variables \<^verbatim>\<open>accessToken\<close> and \<^verbatim>\<open>tokenExpiry\<close>, both
  \<^verbatim>\<open>null\<close> when the process starts. \<^verbatim>\<open>accessToken\<close> is assigned whatever the upstream
  sent as \<^verbatim>\<open>access_token\<close>; \<^verbatim>\<open>tokenExpiry\<close> is only ever assigned the result of an
  addition, a number (in milliseconds), so it is \<^verbatim>\<open>null\<close> (\<open>None\<close>) or a number.
\<close>

record cache =
  accessToken :: jsval
  tokenExpiry :: "jsnum option"

definition init_cache :: cache where
  "init_cache = \<lparr>accessToken = JNull, tokenExpiry = None\<rparr>"

text \<open>An outbound HTTP request, as \<^verbatim>\<open>axios.post(url, data, {headers})\<close> sends it.\<close>

record http_request =
  url :: string
  data :: jsval
  headers :: "(string \<times> string) list"

text \<open>
  What one call of the accessor meets outside the process: the clock
  (\<^verbatim>\<open>Date.now()\<close>, the milliseconds since the epoch, a natural number) when the cache is
  checked, the upstream's answer to a request, and the clock when the answer is stored.
  \<^verbatim>\<open>axios.post\<close> resolves on a 2xx answer (\<open>Inr\<close>, the \<^verbatim>\<open>response.data\<close>) and rejects on any
  other answer and on a transport failure (\<open>Inl\<close>, the error).
\<close>

record world =
  now_check :: nat
  axios_post :: "http_request \<Rightarrow> js_error + jsval"
  now_store :: nat

definition token_request :: "env \<Rightarrow> http_request" where
  "token_request env =
     \<lparr>url = ''https://zoom.us/oauth/token'',
      data = JStr (''grant_type=account_credentials&account_id='' @ interpolate (ZOOM_ACCOUNT_ID env)),
      headers =
        [(''Authorization'', ''Basic '' @
            base64 (interpolate (ZOOM_CLIENT_ID env) @ '':'' @ interpolate (ZOOM_CLIENT_SECRET env))),
         (''Content-Type'', ''application/x-www-form-urlencoded'')]\<rparr>"

text \<open>\<^verbatim>\<open>accessToken && tokenExpiry && Date.now() < tokenExpiry\<close>.\<close>

definition cache_valid :: "cache \<Rightarrow> nat \<Rightarrow> bool" where
  "cache_valid c now =
     (truthy (accessToken c) \<and>
      (case tokenExpiry c of
         None \<Rightarrow> False
       | Some e \<Rightarrow> truthy (JNum e) \<and> num_less (Fin (of_nat now)) e))"

text \<open>
  The body of the \<^verbatim>\<open>try\<close> block after the credentials check: the exchange, the two
  assignments, and the log line that takes \<^verbatim>\<open>accessToken.substring(0, 20)\<close>. It returns
  what the block returns or throws, and the cache as the block leaves it.
\<close>

definition exchange :: "engine \<Rightarrow> env \<Rightarrow> world \<Rightarrow> cache \<Rightarrow> (js_error + jsval) \<times> cache" where
  "exchange E env w c =
     (case axios_post w (token_request env) of
        Inl err \<Rightarrow> (Inl err, c)
      | Inr d \<Rightarrow>
          (case get E d ''access_token'' of
             Inl err \<Rightarrow> (Inl err, c)
           | Inr tok \<Rightarrow>
               (let c1 = c\<lparr>accessToken := tok\<rparr> in
                (case get E d ''expires_in'' of
                   Inl err \<Rightarrow> (Inl err, c1)
                 | Inr ex \<Rightarrow>
                     (case ToNumber E ex of
                        Inl err \<Rightarrow> (Inl err, c1)
                      | Inr n \<Rightarrow>
                          (let c2 = c1\<lparr>tokenExpiry :=
                                 Some (num_add E (Fin (of_nat (now_store w)))
                                         (num_mul E (num_sub E n (Fin 300)) (Fin 1000)))\<rparr> in
                           (case substring0 E tok 20 of
                              Inl err \<Rightarrow> (Inl err, c2)
                            | Inr preview \<Rightarrow> (Inr tok, c2))))))))"

text \<open>The three credentials are set.\<close>

definition creds_set :: "env \<Rightarrow> bool" where
  "creds_set env =
     (is_set (ZOOM_ACCOUNT_ID env) \<and> is_set (ZOOM_CLIENT_ID env) \<and> is_set (ZOOM_CLIENT_SECRET env))"

text \<open>The \<^verbatim>\<open>try\<close> block: the credentials check throws inside it.\<close>

definition try_block ::
  "engine \<Rightarrow> env \<Rightarrow> world \<Rightarrow> cache \<Rightarrow> (js_error + jsval) \<times> cache \<times> http_request list" where
  "try_block E env w c =
     (if \<not> truthy (env_value (ZOOM_ACCOUNT_ID env)) \<or> \<not> truthy (env_value (ZOOM_CLIENT_ID env))
          \<or> \<not> truthy (env_value (ZOOM_CLIENT_SECRET env))
      then (Inl (new_Error
              (''Missing Zoom credentials. Set ZOOM_ACCOUNT_ID, ZOOM_CLIENT_ID, '' @
               ''and ZOOM_CLIENT_SECRET environment variables.'')), c, [])
      else (case exchange E env w c of (r, c') \<Rightarrow> (r, c', [token_request env])))"

text \<open>
  \<^verbatim>\<open>getZoomAccessToken\<close>: the cached token while it is valid; otherwise the \<^verbatim>\<open>try\<close> block,
  whose \<^verbatim>\<open>catch\<close> replaces whatever was thrown by one fixed error. The result is what the
  call returns or throws, the cache after it, and the requests it sent.
\<close>

definition getZoomAccessToken ::
  "engine \<Rightarrow> env \<Rightarrow> world \<Rightarrow> cache \<Rightarrow> (js_error + jsval) \<times> cache \<times> http_request list" where
  "getZoomAccessToken E env w c =
     (if cache_valid c (now_check w) then (Inr (accessToken c), c, [])
      else (case try_block E env w c of
              (Inl err, c', sent) \<Rightarrow> (Inl (new_Error ''Failed to authenticate with Zoom''), c', sent)
            | (Inr tok, c', sent) \<Rightarrow> (Inr tok, c', sent)))"

text \<open>Calls made one after the other, each on the cache the one before left.\<close>

fun calls ::
  "engine \<Rightarrow> env \<Rightarrow> cache \<Rightarrow> world list \<Rightarrow> (js_error + jsval) list \<times> cache \<times> http_request list" where
  "calls E env c [] = ([], c, [])"
| "calls E env c (w # ws) =
     (case getZoomAccessToken E env w c of
        (r, c', sent) \<Rightarrow>
          (case calls E env c' ws of
             (rs, c'', sent') \<Rightarrow> (r # rs, c'', sent @ sent')))"

text \<open>What every cache reached from the empty one satisfies: an expiry is stored only
  after a request was sent, which needs the three credentials.\<close>

definition cache_inv :: "env \<Rightarrow> cache \<Rightarrow> bool" where
  "cache_inv env c = (tokenExpiry c = None \<or> creds_set env)"

section \<open>The HTTP handlers\<close>

text \<open>
  A handler answers with a status and a body: \<^verbatim>\<open>res.json(x)\<close> is status 200 with the JSON
  \<open>x\<close>, \<^verbatim>\<open>res.status(n).json(x)\<close> and \<^verbatim>\<open>res.status(n).send(s)\<close> set the status. Its input
  is \<^verbatim>\<open>req.body\<close> as \<^verbatim>\<open>express.json()\<close> leaves it. Destructuring it throws when it is
  \<^verbatim>\<open>null\<close> or \<^verbatim>\<open>undefined\<close> and reads each property otherwise. Console output is left
  out, but an expression evaluated for a log line that can throw is kept, and so are
  the log lines of the webhook handler, which are all it does with an event.
\<close>

datatype payload = Json jsval | Send string

datatype res = Res nat payload

text \<open>\<^verbatim>\<open>!!v\<close>.\<close>

definition js_bool :: "jsval \<Rightarrow> jsval" where
  "js_bool v = JBool (truthy v)"

subsection \<open>\<^verbatim>\<open>GET /\<close>\<close>

definition get_root :: "env \<Rightarrow> res" where
  "get_root env =
     Res 200 (Json (JObj
       [(''status'', JStr ''ok''),
        (''service'', JStr ''MeetSync Zoom + Stripe Server''),
        (''endpoints'', JObj
           [(''POST /api/create-meeting'', JStr ''Create a new Zoom meeting''),
            (''POST /api/create-checkout-session'', JStr ''Create Stripe checkout session'')]),
        (''env'', JObj
           [(''hasAccountId'', js_bool (env_value (ZOOM_ACCOUNT_ID env))),
            (''hasClientId'', js_bool (env_value (ZOOM_CLIENT_ID env))),
            (''hasClientSecret'', js_bool (env_value (ZOOM_CLIENT_SECRET env))),
            (''hasStripeKey'', js_bool (env_value (STRIPE_SECRET_KEY env)))])]))"

subsection \<open>The Stripe SDK\<close>

text \<open>
  The SDK is an opaque collaborator: what each of its operations returns or throws is an
  input of the model. The module variable \<^verbatim>\<open>stripe\<close> is the SDK, or \<^verbatim>\<open>null\<close> (\<open>None\<close>) when
  \<^verbatim>\<open>STRIPE_SECRET_KEY\<close> was not set at start. Whether a webhook's signature verifies is
  \<^verbatim>\<open>constructEvent\<close>'s answer: it returns the event or throws.
\<close>

record stripe_sdk =
  webhooks_constructEvent :: "jsval \<Rightarrow> jsval \<Rightarrow> jsval \<Rightarrow> js_error + jsval"
  checkout_sessions_create :: "jsval \<Rightarrow> js_error + jsval"
  checkout_sessions_retrieve :: "jsval \<Rightarrow> js_error + jsval"

datatype sdk_call = SessionsCreate jsval | SessionsRetrieve jsval

subsection \<open>\<^verbatim>\<open>POST /api/create-checkout-session\<close>\<close>

text \<open>The object literal \<^verbatim>\<open>sessionConfig\<close>, its conversions in the order the literal
  evaluates them.\<close>

definition sessionConfig ::
  "engine \<Rightarrow> jsval \<Rightarrow> jsval \<Rightarrow> jsval \<Rightarrow> jsval \<Rightarrow> jsval \<Rightarrow> jsval \<Rightarrow> js_error + jsval" where
  "sessionConfig E productId planName currency amount successUrl cancelUrl =
     (case ToString E successUrl of
        Inl err \<Rightarrow> Inl err
      | Inr su \<Rightarrow>
          (case ToNumber E (js_or amount (JNum (Fin 149))) of
             Inl err \<Rightarrow> Inl err
           | Inr a \<Rightarrow>
               (case ToString E amount of
                  Inl err \<Rightarrow> Inl err
                | Inr amount_string \<Rightarrow>
                    Inr (JObj
                      [(''payment_method_types'', JArr [JStr ''card'']),
                       (''mode'', JStr ''subscription''),
                       (''success_url'', JStr (su @ ''&session_id={CHECKOUT_SESSION_ID}'')),
                       (''cancel_url'', cancelUrl),
                       (''line_items'', JArr
                          [JObj
                             [(''price_data'', JObj
                                 [(''currency'', js_or currency (JStr ''usd'')),
                                  (''product'', productId),
                                  (''unit_amount'', JNum (Math_round (num_mul E a (Fin 100)))),
                                  (''recurring'', JObj [(''interval'', JStr ''month'')])]),
                              (''quantity'', JNum (Fin 1))]]),
                       (''metadata'', JObj
                          [(''planName'', planName),
                           (''productId'', productId),
                           (''currency'', currency),
                           (''amount'', JStr amount_string)])]))))"

text \<open>The \<^verbatim>\<open>try\<close> block of the handler: the response it sends or the error it throws, and
  the calls it made to the SDK.\<close>

definition checkout_try ::
  "engine \<Rightarrow> stripe_sdk option \<Rightarrow> jsval \<Rightarrow> (js_error + res) \<times> sdk_call list" where
  "checkout_try E stripe body =
     (if nullish body then (Inl (TypeError E body ''productId''), [])
      else
        (case stripe of
           None \<Rightarrow>
             (Inr (Res 500 (Json (JObj
                [(''success'', JBool False),
                 (''error'', JStr ''Payment system not configured. Please contact support.'')]))),
              [])
         | Some S \<Rightarrow>
             (if \<not> truthy (get_opt body ''productId'')
              then (Inr (Res 400 (Json (JObj
                      [(''success'', JBool False), (''error'', JStr ''Missing product ID'')]))),
                    [])
              else
                (case sessionConfig E (get_opt body ''productId'') (get_opt body ''planName'')
                        (get_opt body ''currency'') (get_opt body ''amount'')
                        (get_opt body ''successUrl'') (get_opt body ''cancelUrl'') of
                   Inl err \<Rightarrow> (Inl err, [])
                 | Inr config \<Rightarrow>
                     (case checkout_sessions_create S config of
                        Inl err \<Rightarrow> (Inl err, [SessionsCreate config])
                      | Inr session \<Rightarrow>
                          (case get E session ''id'' of
                             Inl err \<Rightarrow> (Inl err, [SessionsCreate config])
                           | Inr session_id \<Rightarrow>
                               (Inr (Res 200 (Json (JObj
                                  [(''success'', JBool True),
                                   (''sessionId'', session_id),
                                   (''url'', get_opt session ''url'')]))),
                                [SessionsCreate config])))))))"

definition post_create_checkout_session ::
  "engine \<Rightarrow> stripe_sdk option \<Rightarrow> jsval \<Rightarrow> res \<times> sdk_call list" where
  "post_create_checkout_session E stripe body =
     (case checkout_try E stripe body of
        (Inr r, made) \<Rightarrow> (r, made)
      | (Inl err, made) \<Rightarrow>
          (Res 500 (Json (JObj
             [(''success'', JBool False),
              (''error'', js_or (JStr (message err)) (JStr ''Failed to create checkout session''))])),
           made))"

subsection \<open>\<^verbatim>\<open>POST /api/stripe-webhook\<close>\<close>

text \<open>
  A webhook request: the bytes Stripe signed, the JSON value they parse to, and the
  \<^verbatim>\<open>stripe-signature\<close> header.
\<close>

record webhook_request =
  raw_body :: string
  parsed_body :: jsval
  stripe_signature :: jsval

text \<open>The log lines of the handler, each with the value it prints.\<close>

datatype log =
    VerificationFailed string
  | PaymentSuccessful jsval
  | CustomerEmail jsval
  | Plan jsval
  | SubscriptionCreated jsval
  | SubscriptionCancelled jsval
  | UnhandledEventType string

text \<open>\<^verbatim>\<open>stripe.webhooks.constructEvent(req.body, sig, webhookSecret)\<close>; reading
  \<^verbatim>\<open>stripe.webhooks\<close> throws when \<^verbatim>\<open>stripe\<close> is \<^verbatim>\<open>null\<close>.\<close>

definition constructEvent ::
  "engine \<Rightarrow> env \<Rightarrow> stripe_sdk option \<Rightarrow> jsval \<Rightarrow> jsval \<Rightarrow> js_error + jsval" where
  "constructEvent E env stripe body sig =
     (case stripe of
        None \<Rightarrow> Inl (TypeError E JNull ''webhooks'')
      | Some S \<Rightarrow> webhooks_constructEvent S body sig (env_value (STRIPE_WEBHOOK_SECRET env)))"

text \<open>\<^verbatim>\<open>event.data.object.id\<close>.\<close>

definition event_object_id :: "engine \<Rightarrow> jsval \<Rightarrow> js_error + jsval" where
  "event_object_id E event =
     (case get E event ''data'' of
        Inl err \<Rightarrow> Inl err
      | Inr d \<Rightarrow>
          (case get E d ''object'' of
             Inl err \<Rightarrow> Inl err
           | Inr obj \<Rightarrow> get E obj ''id''))"

text \<open>The \<^verbatim>\<open>switch\<close> on \<^verbatim>\<open>event.type\<close>: the lines it logs, or the error it throws.\<close>

definition handle_event :: "engine \<Rightarrow> jsval \<Rightarrow> js_error + log list" where
  "handle_event E event =
     (case get E event ''type'' of
        Inl err \<Rightarrow> Inl err
      | Inr ty \<Rightarrow>
          (if ty = JStr ''checkout.session.completed'' then
             (case get E event ''data'' of
                Inl err \<Rightarrow> Inl err
              | Inr d \<Rightarrow>
                  (case get E d ''object'' of
                     Inl err \<Rightarrow> Inl err
                   | Inr session \<Rightarrow>
                       (case get E session ''id'' of
                          Inl err \<Rightarrow> Inl err
                        | Inr session_id \<Rightarrow>
                            Inr [PaymentSuccessful session_id,
                                 CustomerEmail (get_opt (get_opt session ''customer_details'') ''email''),
                                 Plan (get_opt (get_opt session ''metadata'') ''planName'')])))
           else if ty = JStr ''customer.subscription.created'' then
             (case event_object_id E event of
                Inl err \<Rightarrow> Inl err
              | Inr i \<Rightarrow> Inr [SubscriptionCreated i])
           else if ty = JStr ''customer.subscription.deleted'' then
             (case event_object_id E event of
                Inl err \<Rightarrow> Inl err
              | Inr i \<Rightarrow> Inr [SubscriptionCancelled i])
           else
             (case ToString E ty of
                Inl err \<Rightarrow> Inl err
              | Inr s \<Rightarrow> Inr [UnhandledEventType s])))"

text \<open>The handler: its response (\<open>Inl\<close> when it throws outside any \<^verbatim>\<open>try\<close> and sends none)
  and the lines it logged.\<close>

definition post_stripe_webhook ::
  "engine \<Rightarrow> env \<Rightarrow> stripe_sdk option \<Rightarrow> jsval \<Rightarrow> jsval \<Rightarrow> (js_error + res) \<times> log list" where
  "post_stripe_webhook E env stripe body sig =
     (case constructEvent E env stripe body sig of
        Inl err \<Rightarrow>
          (Inr (Res 400 (Send (''Webhook Error: '' @ message err))),
           [VerificationFailed (message err)])
      | Inr event \<Rightarrow>
          (case handle_event E event of
             Inl err \<Rightarrow> (Inl err, [])
           | Inr logged \<Rightarrow> (Inr (Res 200 (Json (JObj [(''received'', JBool True)]))), logged)))"

text \<open>
  The route as the application mounts it. \<^verbatim>\<open>app.use(express.json())\<close> (line 17) runs on
  every request before the route's own \<^verbatim>\<open>express.raw({type: 'application/json'})\<close> (line
  130): it parses the body of a JSON request into \<^verbatim>\<open>req.body\<close>, and \<^verbatim>\<open>express.raw\<close> then
  finds the body already read and leaves it. The handler is therefore handed the parsed
  value, never the bytes that were signed.
\<close>

definition route_stripe_webhook ::
  "engine \<Rightarrow> env \<Rightarrow> stripe_sdk option \<Rightarrow> webhook_request \<Rightarrow> (js_error + res) \<times> log list" where
  "route_stripe_webhook E env stripe rq =
     post_stripe_webhook E env stripe (parsed_body rq) (stripe_signature rq)"

subsection \<open>\<^verbatim>\<open>POST /api/send-welcome-email\<close>\<close>

text \<open>The inner \<^verbatim>\<open>try\<close> block: retrieving the session and reading the customer's e-mail.\<close>

definition retrieve_customer_email ::
  "engine \<Rightarrow> stripe_sdk option \<Rightarrow> jsval \<Rightarrow> (js_error + jsval) \<times> sdk_call list" where
  "retrieve_customer_email E stripe sessionId =
     (case stripe of
        None \<Rightarrow> (Inl (TypeError E JNull ''checkout''), [])
      | Some S \<Rightarrow>
          (case checkout_sessions_retrieve S sessionId of
             Inl err \<Rightarrow> (Inl err, [SessionsRetrieve sessionId])
           | Inr session \<Rightarrow>
               (case get E session ''customer_details'' of
                  Inl err \<Rightarrow> (Inl err, [SessionsRetrieve sessionId])
                | Inr details \<Rightarrow> (Inr (get_opt details ''email''), [SessionsRetrieve sessionId]))))"

definition welcome_try ::
  "engine \<Rightarrow> stripe_sdk option \<Rightarrow> jsval \<Rightarrow> (js_error + res) \<times> sdk_call list" where
  "welcome_try E stripe body =
     (if nullish body then (Inl (TypeError E body ''sessionId''), [])
      else
        (let made =
           (if truthy (get_opt body ''sessionId'')
            then snd (retrieve_customer_email E stripe (get_opt body ''sessionId''))
            else [])
         in (Inr (Res 200 (Json (JObj
               [(''success'', JBool True), (''message'', JStr ''Welcome email queued'')]))),
             made)))"

definition post_send_welcome_email ::
  "engine \<Rightarrow> stripe_sdk option \<Rightarrow> jsval \<Rightarrow> res \<times> sdk_call list" where
  "post_send_welcome_email E stripe body =
     (case welcome_try E stripe body of
        (Inr r, made) \<Rightarrow> (r, made)
      | (Inl err, made) \<Rightarrow>
          (Res 500 (Json (JObj [(''success'', JBool False), (''error'', JStr (message err))])),
           made))"

subsection \<open>\<^verbatim>\<open>POST /api/create-meeting\<close>\<close>

text \<open>The object literal \<^verbatim>\<open>meetingData\<close>, and the request that carries it.\<close>

definition meetingData :: "jsval \<Rightarrow> jsval \<Rightarrow> jsval" where
  "meetingData topic duration =
     JObj
       [(''topic'', js_or topic (JStr ''MeetSync Call'')),
        (''type'', JNum (Fin 1)),
        (''duration'', js_or duration (JNum (Fin 60))),
        (''settings'', JObj
           [(''host_video'', JBool True),
            (''participant_video'', JBool True),
            (''join_before_host'', JBool True),
            (''waiting_room'', JBool False),
            (''mute_upon_entry'', JBool False)])]"

definition meeting_request :: "string \<Rightarrow> jsval \<Rightarrow> http_request" where
  "meeting_request bearer payload =
     \<lparr>url = ''https://api.zoom.us/v2/users/me/meetings'',
      data = payload,
      headers = [(''Authorization'', ''Bearer '' @ bearer), (''Content-Type'', ''application/json'')]\<rparr>"

text \<open>The \<^verbatim>\<open>try\<close> block of the handler: the response or the error, the cache, and the
  requests sent.\<close>

definition meeting_try ::
  "engine \<Rightarrow> env \<Rightarrow> world \<Rightarrow> cache \<Rightarrow> jsval \<Rightarrow> (js_error + res) \<times> cache \<times> http_request list" where
  "meeting_try E env w c body =
     (if nullish body then (Inl (TypeError E body ''topic''), c, [])
      else
        (case getZoomAccessToken E env w c of
           (Inl err, c', sent) \<Rightarrow> (Inl err, c', sent)
         | (Inr token, c', sent) \<Rightarrow>
             (case ToString E token of
                Inl err \<Rightarrow> (Inl err, c', sent)
              | Inr bearer \<Rightarrow>
                  (let req = meeting_request bearer
                               (meetingData (get_opt body ''topic'') (get_opt body ''duration''))
                   in (case axios_post w req of
                         Inl err \<Rightarrow> (Inl err, c', sent @ [req])
                       | Inr d \<Rightarrow>
                           (case get E d ''id'' of
                              Inl err \<Rightarrow> (Inl err, c', sent @ [req])
                            | Inr meeting_id \<Rightarrow>
                                (Inr (Res 200 (Json (JObj
                                   [(''success'', JBool True),
                                    (''meeting'', JObj
                                       [(''id'', meeting_id),
                                        (''joinUrl'', get_opt d ''join_url''),
                                        (''startUrl'', get_opt d ''start_url''),
                                        (''password'', get_opt d ''password''),
                                        (''topic'', get_opt d ''topic'')])]))),
                                 c', sent @ [req])))))))"

definition post_create_meeting ::
  "engine \<Rightarrow> env \<Rightarrow> world \<Rightarrow> cache \<Rightarrow> jsval \<Rightarrow> res \<times> cache \<times> http_request list" where
  "post_create_meeting E env w c body =
     (case meeting_try E env w c body of
        (Inr r, c', sent) \<Rightarrow> (r, c', sent)
      | (Inl err, c', sent) \<Rightarrow>
          (Res 500 (Json (JObj
             [(''success'', JBool False),
              (''error'', js_or (get_opt (get_opt (response err) ''data'') ''message'')
                             (JStr ''Failed to create Zoom meeting''))])),
           c', sent))"

section \<open>Example inputs\<close>

text \<open>Concrete inputs, on which the theorems below are instantiated: an engine, an
  environment with every variable set, and a world whose clock reads \<open>t\<close> and whose
  upstream issues the token \<^verbatim>\<open>tok\<close> for 3600 seconds.\<close>

definition example_engine :: engine where
  "example_engine =
     \<lparr>StringToNumber = (\<lambda>s. NaN), NumberToString = (\<lambda>n. ''0''),
      ObjectToString = (\<lambda>v. Inr ''[object Object]''),
      TypeErrorMessage = (\<lambda>v k. ''Cannot read properties''),
      RoundedOp = (\<lambda>op a b. NaN)\<rparr>"

definition example_env :: env where
  "example_env =
     \<lparr>ZOOM_ACCOUNT_ID = Some ''acct'', ZOOM_CLIENT_ID = Some ''id'',
      ZOOM_CLIENT_SECRET = Some ''secret'', STRIPE_SECRET_KEY = Some ''sk_test'',
      STRIPE_WEBHOOK_SECRET = Some ''whsec''\<rparr>"

definition example_world :: "nat \<Rightarrow> world" where
  "example_world t =
     \<lparr>now_check = t,
      axios_post = (\<lambda>r. Inr (JObj [(''access_token'', JStr ''tok''),
                                  (''expires_in'', JNum (Fin 3600))])),
      now_store = t\<rparr>"

text \<open>An error as axios rejects with when the upstream answers 401.\<close>

definition upstream_401 :: js_error where
  "upstream_401 =
     \<lparr>message = ''Request failed with status code 401'',
      response = JObj [(''status'', JNum (Fin 401)),
                       (''data'', JObj [(''reason'', JStr ''Invalid client_id or client_secret''),
                                        (''error'', JStr ''invalid_client'')])]\<rparr>"

text \<open>A signed \<^verbatim>\<open>checkout.session.completed\<close> event; an SDK that, as Stripe's does,
  verifies a signature against the raw payload only (a string) and refuses a parsed
  object, and that knows no session to retrieve; a checkout request; and a world whose
  upstream also creates meetings.\<close>

definition example_event :: jsval where
  "example_event =
     JObj [(''type'', JStr ''checkout.session.completed''),
           (''data'', JObj [(''object'', JObj
              [(''id'', JStr ''cs_test_1''),
               (''customer_details'', JObj [(''email'', JStr ''ada@example.org'')]),
               (''metadata'', JObj [(''planName'', JStr ''Pro'')])])])]"

definition example_stripe :: stripe_sdk where
  "example_stripe =
     \<lparr>webhooks_constructEvent =
        (\<lambda>payload sig secret.
           case payload of
             JStr raw \<Rightarrow>
               if sig = JStr ''t=1,v1=good'' then Inr example_event
               else Inl (new_Error ''No signatures found matching the expected signature for payload'')
           | other \<Rightarrow>
               Inl (new_Error ''Webhook payload must be provided as a string or a Buffer'')),
      checkout_sessions_create =
        (\<lambda>config. Inr (JObj [(''id'', JStr ''cs_test_1''),
                              (''url'', JStr ''https://checkout.stripe.com/c/pay/cs_test_1'')])),
      checkout_sessions_retrieve = (\<lambda>i. Inl (new_Error ''No such checkout.session''))\<rparr>"

definition example_checkout_body :: jsval where
  "example_checkout_body =
     JObj [(''productId'', JStr ''p1''), (''planName'', JStr ''Pro''), (''currency'', JStr ''usd''),
           (''amount'', JNum (Fin 149)),
           (''successUrl'', JStr ''https://meetsync.app/welcome?plan=pro''),
           (''cancelUrl'', JStr ''https://meetsync.app/pricing'')]"

definition example_zoom :: "nat \<Rightarrow> world" where
  "example_zoom t =
     \<lparr>now_check = t,
      axios_post =
        (\<lambda>r. if url r = ''https://zoom.us/oauth/token''
              then Inr (JObj [(''access_token'', JStr ''tok''), (''expires_in'', JNum (Fin 3600))])
              else Inr (JObj [(''id'', JNum (Fin 81234567890)),
                              (''join_url'', JStr ''https://zoom.us/j/81234567890''),
                              (''start_url'', JStr ''https://zoom.us/s/81234567890''),
                              (''password'', JStr ''pw''),
                              (''topic'', get_opt (data r) ''topic'')])),
      now_store = t\<rparr>"

section \<open>Properties of the token cache\<close>

lemma base64_example: "base64 ''a:b'' = ''YTpi''"
  by (simp add: base64_def b64_char_def)

lemma base64_padding: "base64 ''Ma'' = ''TWE='' \<and> base64 ''M'' = ''TQ=='' \<and> base64 ''Man'' = ''TWFu''"
  by (simp add: base64_def b64_char_def)

text \<open>The code's test of an environment value, \<^verbatim>\<open>!x\<close> or \<^verbatim>\<open>!!x\<close>, is whether it is set.\<close>

lemma truthy_env_value: "truthy (env_value x) = is_set x"
  by (cases x) (simp_all add: env_value_def is_set_def)

lemma exact_int_sub_300:
  assumes "exact_int N" and "exact_int ((N - 300) * 1000)"
  shows "exact_int (N - 300)"
proof -
  from assms(1) obtain n where "N = of_int n" unfolding exact_int_def by metis
  then have "N - 300 = of_int (n - 300)" by simp
  then have "of_int \<lfloor>N - 300\<rfloor> = N - 300" by (metis floor_of_int)
  moreover have "\<bar>N - 300\<bar> \<le> \<bar>(N - 300) * 1000\<bar>" by (simp add: abs_mult)
  ultimately show ?thesis using assms(2) by (simp add: exact_int_def)
qed

text \<open>Line 294 on integers in the exact range.\<close>

lemma expiry_exact:
  assumes "exact_int N" and "exact_int ((N - 300) * 1000)"
    and "exact_int (of_nat t)" and "exact_int (of_nat t + (N - 300) * 1000)"
  shows "num_add E (Fin (of_nat t)) (num_mul E (num_sub E (Fin N) (Fin 300)) (Fin 1000)) =
           Fin (of_nat t + (N - 300) * 1000)"
proof -
  have c: "exact_int 300" "exact_int 1000" by (simp_all add: exact_int_def)
  from assms c exact_int_sub_300[OF assms(1,2)] show ?thesis by simp
qed

lemma exchange_Inr:
  assumes "exchange E env w c = (Inr v, c')"
  shows "\<exists>d ex n s. axios_post w (token_request env) = Inr d \<and> get E d ''access_token'' = Inr v
           \<and> get E d ''expires_in'' = Inr ex \<and> ToNumber E ex = Inr n \<and> v = JStr s
           \<and> c' = \<lparr>accessToken = v,
                   tokenExpiry = Some (num_add E (Fin (of_nat (now_store w)))
                                   (num_mul E (num_sub E n (Fin 300)) (Fin 1000)))\<rparr>"
  using assms
  by (cases v) (auto simp: exchange_def Let_def split: sum.splits)

lemma exchange_rejected:
  "axios_post w (token_request env) = Inl err \<Longrightarrow> exchange E env w c = (Inl err, c)"
  by (simp add: exchange_def)

lemma exchange_result_independent:
  "fst (exchange E env w c) = fst (exchange E env w c0)"
  by (simp add: exchange_def Let_def split: sum.splits)

text \<open>A call that does not find a valid cached token, case by case.\<close>

lemma miss_cases:
  assumes "\<not> cache_valid c (now_check w)"
  shows "getZoomAccessToken E env w c =
           (if \<not> creds_set env
            then (Inl (new_Error ''Failed to authenticate with Zoom''), c, [])
            else (case exchange E env w c of
                    (Inl err, c') \<Rightarrow>
                      (Inl (new_Error ''Failed to authenticate with Zoom''), c', [token_request env])
                  | (Inr tok, c') \<Rightarrow> (Inr tok, c', [token_request env])))"
  using assms
  by (auto simp: getZoomAccessToken_def try_block_def creds_set_def truthy_env_value
      split: prod.splits sum.splits)

lemma cache_hit:
  assumes "truthy (accessToken c)" and "tokenExpiry c = Some (Fin x)"
    and "of_nat (now_check w) < x"
  shows "getZoomAccessToken E env w c = (Inr (accessToken c), c, [])"
proof -
  have "0 \<le> (of_nat (now_check w) :: rat)" by simp
  with assms(3) have "x \<noteq> 0" by linarith
  with assms show ?thesis by (simp add: getZoomAccessToken_def cache_valid_def)
qed

lemma calls_hit:
  assumes "truthy (accessToken c)" and "tokenExpiry c = Some (Fin x)"
    and "\<forall>w\<in>set ws. of_nat (now_check w) < x"
  shows "calls E env c ws = (map (\<lambda>w. Inr (accessToken c)) ws, c, [])"
  using assms(3) by (induction ws) (simp_all add: cache_hit[OF assms(1,2)])

lemma returned_token:
  assumes "getZoomAccessToken E env w c = (Inr v, c', sent)"
  shows "accessToken c' = v \<and> length sent \<le> 1"
proof (cases "cache_valid c (now_check w)")
  case True
  with assms show ?thesis by (auto simp add: getZoomAccessToken_def)
next
  case False
  with assms have "exchange E env w c = (Inr v, c')"
    by (auto simp: miss_cases split: if_splits sum.splits prod.splits)
  from exchange_Inr[OF this] False assms show ?thesis
    by (auto simp: miss_cases split: if_splits sum.splits prod.splits)
qed

lemma example_first_call:
  "getZoomAccessToken example_engine example_env (example_world 0) init_cache =
     (Inr (JStr ''tok''),
      \<lparr>accessToken = JStr ''tok'', tokenExpiry = Some (Fin 3300000)\<rparr>,
      [token_request example_env])"
  by (simp add: getZoomAccessToken_def try_block_def exchange_def cache_valid_def init_cache_def
      example_engine_def example_env_def example_world_def is_set_def env_value_def exact_int_def)

text \<open>
  C1. While the cache holds a token (a truthy \<^verbatim>\<open>accessToken\<close>) and the clock reads a time
  strictly before the stored expiry, the accessor returns the cached value, leaves the
  cache as it is and sends no request. Consequently, in every sequence of calls whose
  first call returned a token \<open>v\<close> and left an expiry that every later call precedes, the
  later calls all return \<open>v\<close> and send nothing: the requests of the whole sequence are
  those of its first call, at most one. (The calls of a sequence run one after the other;
  the code tests the token by truthiness, so an empty string counts as no token.)
\<close>

theorem cached_token_returned_without_network:
  "(truthy (accessToken c) \<and> tokenExpiry c = Some (Fin x) \<and> of_nat (now_check w) < x
      \<longrightarrow> getZoomAccessToken E env w c = (Inr (accessToken c), c, []))
   \<and> (getZoomAccessToken E env w0 c0 = (Inr v, c1, sent) \<and> truthy v
        \<and> tokenExpiry c1 = Some (Fin x1) \<and> (\<forall>w\<in>set ws. of_nat (now_check w) < x1)
      \<longrightarrow> calls E env c0 (w0 # ws) = (Inr v # map (\<lambda>w. Inr v) ws, c1, sent)
          \<and> length sent \<le> 1)"
proof (intro conjI impI)
  assume "truthy (accessToken c) \<and> tokenExpiry c = Some (Fin x) \<and> of_nat (now_check w) < x"
  then show "getZoomAccessToken E env w c = (Inr (accessToken c), c, [])"
    by (simp add: cache_hit)
next
  assume a: "getZoomAccessToken E env w0 c0 = (Inr v, c1, sent) \<and> truthy v
        \<and> tokenExpiry c1 = Some (Fin x1) \<and> (\<forall>w\<in>set ws. of_nat (now_check w) < x1)"
  then have tok: "accessToken c1 = v" and len: "length sent \<le> 1"
    using returned_token by blast+
  from a tok have "calls E env c1 ws = (map (\<lambda>w. Inr v) ws, c1, [])"
    using calls_hit[of c1 x1 ws E env] by simp
  with a show "calls E env c0 (w0 # ws) = (Inr v # map (\<lambda>w. Inr v) ws, c1, sent)"
    by simp
  from len show "length sent \<le> 1" .
qed

theorem cached_token_returned_without_network_witness:
  "getZoomAccessToken example_engine example_env (example_world 3299000)
       \<lparr>accessToken = JStr ''tok'', tokenExpiry = Some (Fin 3300000)\<rparr> =
     (Inr (JStr ''tok''), \<lparr>accessToken = JStr ''tok'', tokenExpiry = Some (Fin 3300000)\<rparr>, [])
   \<and> calls example_engine example_env init_cache
       [example_world 0, example_world 1000, example_world 3299000] =
     ([Inr (JStr ''tok''), Inr (JStr ''tok''), Inr (JStr ''tok'')],
      \<lparr>accessToken = JStr ''tok'', tokenExpiry = Some (Fin 3300000)\<rparr>,
      [token_request example_env])"
  using example_first_call
    cached_token_returned_without_network
      [where c = "\<lparr>accessToken = JStr ''tok'', tokenExpiry = Some (Fin 3300000)\<rparr>"
         and x = 3300000 and w = "example_world 3299000"
         and E = example_engine and env = example_env
         and ?w0.0 = "example_world 0" and ?c0.0 = init_cache and v = "JStr ''tok''"
         and ?c1.0 = "\<lparr>accessToken = JStr ''tok'', tokenExpiry = Some (Fin 3300000)\<rparr>"
         and sent = "[token_request example_env]" and ?x1.0 = 3300000
         and ws = "[example_world 1000, example_world 3299000]"]
  by (simp add: example_world_def)

text \<open>
  C2, as stated, fails. The expiry is measured from the clock read when the answer is
  stored (line 294, after the \<^verbatim>\<open>await\<close>), not from the time of the call: a call at time
  \<open>0\<close> whose answer (\<^verbatim>\<open>expires_in\<close> \<open>= 3600\<close>) is stored two seconds later stores the expiry
  \<open>3302\<close> seconds, not \<open>3300\<close>, and a call at \<open>3301\<close> seconds is then a cache hit, not a
  fresh exchange.
\<close>

theorem expiry_measured_from_store_time:
  "getZoomAccessToken example_engine example_env ((example_world 0)\<lparr>now_store := 2000\<rparr>)
       init_cache =
     (Inr (JStr ''tok''), \<lparr>accessToken = JStr ''tok'', tokenExpiry = Some (Fin 3302000)\<rparr>,
      [token_request example_env])
   \<and> getZoomAccessToken example_engine example_env (example_world 3301000)
        \<lparr>accessToken = JStr ''tok'', tokenExpiry = Some (Fin 3302000)\<rparr> =
     (Inr (JStr ''tok''), \<lparr>accessToken = JStr ''tok'', tokenExpiry = Some (Fin 3302000)\<rparr>, [])"
  by (simp add: getZoomAccessToken_def try_block_def exchange_def cache_valid_def init_cache_def
      example_engine_def example_env_def example_world_def env_value_def exact_int_def)

text \<open>
  C2, amended. A call that sent a request and returned a token \<open>v\<close>, where the upstream's
  answer carries \<^verbatim>\<open>expires_in\<close> \<open>= N\<close>, an integer, and the numbers of line 294 stay in the
  range where doubles are exact: \<open>v\<close> is the answer's \<^verbatim>\<open>access_token\<close>, and the cache holds
  \<open>v\<close> with the expiry \<open>stored + (N - 300) * 1000\<close> milliseconds, \<open>stored\<close> being the clock
  when the answer is stored. That is the time of the call plus \<open>N - 300\<close> seconds when
  the clock reads the same at both. In particular, \<open>N = 3600\<close> stored at time \<open>0\<close> gives
  the expiry \<open>3300\<close> seconds; a call at \<open>3299\<close> seconds returns the (non-empty) token from
  the cache and sends nothing, and a call at \<open>3301\<close> seconds sends the token request.
\<close>

theorem refresh_stores_token_and_expiry:
  assumes "getZoomAccessToken E env w c = (Inr v, c', sent)" and "sent \<noteq> []"
    and "axios_post w (token_request env) = Inr d"
    and "get E d ''expires_in'' = Inr (JNum (Fin N))"
    and "exact_int N" and "exact_int ((N - 300) * 1000)"
    and "exact_int (of_nat (now_store w))"
    and "exact_int (of_nat (now_store w) + (N - 300) * 1000)"
  shows "get E d ''access_token'' = Inr v
     \<and> c' = \<lparr>accessToken = v, tokenExpiry = Some (Fin (of_nat (now_store w) + (N - 300) * 1000))\<rparr>
     \<and> (now_store w = now_check w \<longrightarrow>
          tokenExpiry c' = Some (Fin (of_nat (now_check w) + (N - 300) * 1000)))
     \<and> (N = 3600 \<and> now_store w = 0 \<and> truthy v \<longrightarrow>
          tokenExpiry c' = Some (Fin 3300000)
          \<and> (\<forall>w'. now_check w' = 3299000 \<longrightarrow> getZoomAccessToken E env w' c' = (Inr v, c', []))
          \<and> (\<forall>w'. now_check w' = 3301000 \<longrightarrow>
                snd (snd (getZoomAccessToken E env w' c')) = [token_request env]))"
proof -
  from assms(1,2) have miss: "\<not> cache_valid c (now_check w)"
    by (auto simp: getZoomAccessToken_def split: if_splits)
  with assms(1) have creds: "creds_set env" and ex: "exchange E env w c = (Inr v, c')"
    by (auto simp: miss_cases split: if_splits sum.splits prod.splits)
  from exchange_Inr[OF ex] assms(3,4)
  have tok: "get E d ''access_token'' = Inr v"
    and c0: "c' = \<lparr>accessToken = v,
                   tokenExpiry = Some (num_add E (Fin (of_nat (now_store w)))
                                   (num_mul E (num_sub E (Fin N) (Fin 300)) (Fin 1000)))\<rparr>"
    by auto
  from c0 expiry_exact[OF assms(5-8)]
  have c': "c' = \<lparr>accessToken = v, tokenExpiry = Some (Fin (of_nat (now_store w) + (N - 300) * 1000))\<rparr>"
    by simp
  have still: "tokenExpiry c' = Some (Fin (of_nat (now_check w) + (N - 300) * 1000))"
    if "now_store w = now_check w"
    using that c' by simp
  have scen: "tokenExpiry c' = Some (Fin 3300000)
          \<and> (\<forall>w'. now_check w' = 3299000 \<longrightarrow> getZoomAccessToken E env w' c' = (Inr v, c', []))
          \<and> (\<forall>w'. now_check w' = 3301000 \<longrightarrow>
                snd (snd (getZoomAccessToken E env w' c')) = [token_request env])"
    if h: "N = 3600 \<and> now_store w = 0 \<and> truthy v"
  proof (intro conjI allI impI)
    from h c' show e: "tokenExpiry c' = Some (Fin 3300000)" by simp
    fix w' :: world
    { assume "now_check w' = 3299000"
      with h c' e show "getZoomAccessToken E env w' c' = (Inr v, c', [])"
        using cache_hit[of c' 3300000 w' E env] by simp }
    { assume "now_check w' = 3301000"
      with e have "\<not> cache_valid c' (now_check w')" by (simp add: cache_valid_def)
      with creds show "snd (snd (getZoomAccessToken E env w' c')) = [token_request env]"
        by (simp add: miss_cases split: prod.splits sum.splits) }
  qed
  from tok c' still scen show ?thesis by blast
qed

theorem refresh_stores_token_and_expiry_witness:
  "getZoomAccessToken example_engine example_env (example_world 0) init_cache =
     (Inr (JStr ''tok''), \<lparr>accessToken = JStr ''tok'', tokenExpiry = Some (Fin 3300000)\<rparr>,
      [token_request example_env])
   \<and> exact_int 3600 \<and> exact_int ((3600 - 300) * 1000) \<and> exact_int (of_nat 0)
   \<and> exact_int (of_nat 0 + (3600 - 300) * 1000)
   \<and> getZoomAccessToken example_engine example_env (example_world 3299000)
        \<lparr>accessToken = JStr ''tok'', tokenExpiry = Some (Fin 3300000)\<rparr> =
     (Inr (JStr ''tok''), \<lparr>accessToken = JStr ''tok'', tokenExpiry = Some (Fin 3300000)\<rparr>, [])
   \<and> snd (snd (getZoomAccessToken example_engine example_env (example_world 3301000)
        \<lparr>accessToken = JStr ''tok'', tokenExpiry = Some (Fin 3300000)\<rparr>)) =
     [token_request example_env]"
proof -
  have e: "exact_int 3600" "exact_int ((3600 - 300) * 1000)" "exact_int (of_nat 0)"
    "exact_int (of_nat 0 + (3600 - 300) * 1000)"
    by (simp_all add: exact_int_def)
  have d: "axios_post (example_world 0) (token_request example_env) =
             Inr (JObj [(''access_token'', JStr ''tok''), (''expires_in'', JNum (Fin 3600))])"
    "get example_engine (JObj [(''access_token'', JStr ''tok''), (''expires_in'', JNum (Fin 3600))])
       ''expires_in'' = Inr (JNum (Fin 3600))"
    "now_store (example_world 0) = 0"
    by (simp_all add: example_world_def)
  from refresh_stores_token_and_expiry
      [where E = example_engine and env = example_env and w = "example_world 0"
         and c = init_cache and v = "JStr ''tok''"
         and c' = "\<lparr>accessToken = JStr ''tok'', tokenExpiry = Some (Fin 3300000)\<rparr>"
         and sent = "[token_request example_env]"
         and d = "JObj [(''access_token'', JStr ''tok''), (''expires_in'', JNum (Fin 3600))]"
         and N = 3600]
    example_first_call e d
  show ?thesis by (simp add: example_world_def)
qed

text \<open>
  C4. A refresh that fails because the upstream cannot be reached or answers outside 2xx
  (\<^verbatim>\<open>axios.post\<close> rejects) leaves the cache exactly as it was, and the caller gets the one
  fixed error: its message is the same whatever the upstream's error was, and it carries
  no \<^verbatim>\<open>response\<close>.
\<close>

theorem failed_refresh_keeps_cache:
  assumes "\<not> cache_valid c (now_check w)" and "creds_set env"
    and "axios_post w (token_request env) = Inl err"
  shows "getZoomAccessToken E env w c =
           (Inl \<lparr>message = ''Failed to authenticate with Zoom'', response = JUndefined\<rparr>, c,
            [token_request env])"
  using assms by (simp add: miss_cases exchange_rejected new_Error_def)

theorem failed_refresh_keeps_cache_witness:
  "\<not> cache_valid \<lparr>accessToken = JStr ''old'', tokenExpiry = Some (Fin 3300000)\<rparr> 3301000
   \<and> creds_set example_env
   \<and> getZoomAccessToken example_engine example_env
        ((example_world 3301000)\<lparr>axios_post := (\<lambda>r. Inl upstream_401)\<rparr>)
        \<lparr>accessToken = JStr ''old'', tokenExpiry = Some (Fin 3300000)\<rparr> =
      (Inl \<lparr>message = ''Failed to authenticate with Zoom'', response = JUndefined\<rparr>,
       \<lparr>accessToken = JStr ''old'', tokenExpiry = Some (Fin 3300000)\<rparr>,
       [token_request example_env])"
  using failed_refresh_keeps_cache
      [where c = "\<lparr>accessToken = JStr ''old'', tokenExpiry = Some (Fin 3300000)\<rparr>"
         and w = "(example_world 3301000)\<lparr>axios_post := (\<lambda>r. Inl upstream_401)\<rparr>"
         and env = example_env and err = upstream_401 and E = example_engine]
  by (simp add: cache_valid_def creds_set_def is_set_def env_value_def example_env_def
      example_world_def)

text \<open>The \<^verbatim>\<open>try\<close> block does throw the descriptive error when a credential is missing.\<close>

lemma try_block_throws_descriptive:
  "fst (try_block example_engine (example_env\<lparr>ZOOM_ACCOUNT_ID := None\<rparr>)
          (example_world 0) init_cache) =
     Inl \<lparr>message = ''Missing Zoom credentials. Set ZOOM_ACCOUNT_ID, ZOOM_CLIENT_ID, and ZOOM_CLIENT_SECRET environment variables.'',
          response = JUndefined\<rparr>"
  by (simp add: try_block_def example_env_def env_value_def new_Error_def)

text \<open>
  C3 fails on the code. With the account id missing and the cache empty, the \<^verbatim>\<open>try\<close> block
  throws the descriptive error, which names the variables to set; but the \<^verbatim>\<open>throw\<close> (line
  277) stands inside the \<^verbatim>\<open>try\<close> whose \<^verbatim>\<open>catch\<close> (lines 301 to 305) replaces whatever was
  thrown, so the caller gets \<^verbatim>\<open>Failed to authenticate with Zoom\<close>, which names no
  credential. No request is sent and the cache is unchanged.
\<close>

theorem missing_credentials_error_replaced:
  "getZoomAccessToken example_engine (example_env\<lparr>ZOOM_ACCOUNT_ID := None\<rparr>)
          (example_world 0) init_cache =
     (Inl \<lparr>message = ''Failed to authenticate with Zoom'', response = JUndefined\<rparr>,
      init_cache, [])
   \<and> \<not> sublist ''ZOOM_ACCOUNT_ID'' ''Failed to authenticate with Zoom''"
  apply (simp add: getZoomAccessToken_def try_block_def cache_valid_def init_cache_def
      example_env_def env_value_def new_Error_def)
  apply code_simp
  done

text \<open>
  What the code keeps of it: while any of the three credentials is not set and the cache
  holds no valid token, the call throws, sends no request and leaves the cache as it
  was.
\<close>

lemma missing_credentials_fail_without_request:
  assumes "\<not> creds_set env" and "\<not> cache_valid c (now_check w)"
  shows "\<exists>err. getZoomAccessToken E env w c = (Inl err, c, [])"
  using assms by (simp add: miss_cases)

lemma missing_credentials_fail_without_request_example:
  "\<not> creds_set (example_env\<lparr>ZOOM_ACCOUNT_ID := None\<rparr>)
   \<and> \<not> cache_valid init_cache 0
   \<and> (\<exists>err. getZoomAccessToken example_engine (example_env\<lparr>ZOOM_ACCOUNT_ID := None\<rparr>)
               (example_world 0) init_cache = (Inl err, init_cache, []))"
  using missing_credentials_fail_without_request
      [where env = "example_env\<lparr>ZOOM_ACCOUNT_ID := None\<rparr>" and c = init_cache
         and w = "example_world 0" and E = example_engine]
  by (simp add: cache_valid_def creds_set_def is_set_def env_value_def example_env_def
      example_world_def init_cache_def)

lemma cache_inv_step:
  assumes "cache_inv env c" and "getZoomAccessToken E env w c = (r, c', sent)"
  shows "cache_inv env c'"
proof (cases "cache_valid c (now_check w)")
  case True
  with assms show ?thesis by (auto simp: getZoomAccessToken_def)
next
  case False
  with assms show ?thesis
    by (auto simp: miss_cases cache_inv_def split: if_splits)
qed

lemma cache_inv_calls:
  "cache_inv env c \<Longrightarrow> calls E env c ws = (rs, c', sent) \<Longrightarrow> cache_inv env c'"
proof (induction ws arbitrary: c rs sent)
  case Nil
  then show ?case by simp
next
  case (Cons w ws)
  then show ?case
    by (auto split: prod.splits dest: cache_inv_step)
qed

lemma cache_valid_expiry:
  "cache_valid c now \<Longrightarrow> \<exists>x. tokenExpiry c = Some (Fin x) \<and> of_nat now < x"
  by (cases "tokenExpiry c"; cases "the (tokenExpiry c)") (auto simp: cache_valid_def)

text \<open>
  C8. In every cache reached from the empty one by calls of the accessor: once the clock
  has reached the stored expiry, a call sends the token request, and returns or throws
  what it would on the empty cache; and every value a call returns is either the cached
  token, returned with no request and strictly before the stored expiry, or the
  \<^verbatim>\<open>access_token\<close> of the answer to the request this call sent.
\<close>

theorem expired_token_never_returned:
  assumes "calls E env init_cache ws = (rs, c, sent0)"
    and "getZoomAccessToken E env w c = (r, c', sent)"
  shows "(tokenExpiry c = Some (Fin x) \<and> x \<le> of_nat (now_check w) \<longrightarrow>
            sent = [token_request env]
            \<and> r = fst (getZoomAccessToken E env w init_cache)
            \<and> sent = snd (snd (getZoomAccessToken E env w init_cache)))
       \<and> (r = Inr v \<longrightarrow>
            (sent = [] \<and> v = accessToken c
               \<and> (\<exists>x. tokenExpiry c = Some (Fin x) \<and> of_nat (now_check w) < x))
            \<or> (sent = [token_request env]
               \<and> (\<exists>d. axios_post w (token_request env) = Inr d \<and> get E d ''access_token'' = Inr v)))"
proof (cases "cache_valid c (now_check w)")
  case True
  from cache_valid_expiry[OF True] obtain y where
    y: "tokenExpiry c = Some (Fin y)" "of_nat (now_check w) < y" by blast
  from True assms(2) have "r = Inr (accessToken c)" "sent = []"
    by (auto simp: getZoomAccessToken_def)
  with y show ?thesis by auto
next
  case False
  have inv: "cache_inv env c"
    using cache_inv_calls[OF _ assms(1)] by (simp add: cache_inv_def init_cache_def)
  have init: "\<not> cache_valid init_cache (now_check w)"
    by (simp add: cache_valid_def init_cache_def)
  have fresh: "sent = [token_request env] \<and> r = fst (getZoomAccessToken E env w init_cache)
      \<and> sent = snd (snd (getZoomAccessToken E env w init_cache))"
    if "tokenExpiry c = Some (Fin x)"
  proof -
    from that inv have creds: "creds_set env" by (simp add: cache_inv_def)
    obtain r0 c0 where e0: "exchange E env w init_cache = (r0, c0)" by (cases "exchange E env w init_cache")
    obtain r1 c1 where e1: "exchange E env w c = (r1, c1)" by (cases "exchange E env w c")
    from e0 e1 have "r1 = r0"
      using exchange_result_independent[of E env w c init_cache] by simp
    with e0 e1 creds False init assms(2) show ?thesis
      by (auto simp: miss_cases split: sum.splits)
  qed
  have ret: "sent = [token_request env]
               \<and> (\<exists>d. axios_post w (token_request env) = Inr d \<and> get E d ''access_token'' = Inr v)"
    if "r = Inr v"
  proof -
    from that False assms(2) have "exchange E env w c = (Inr v, c')" and "sent = [token_request env]"
      by (auto simp: miss_cases split: if_splits sum.splits prod.splits)
    with exchange_Inr[of E env w c v c'] show ?thesis by blast
  qed
  from fresh ret show ?thesis by blast
qed

theorem expired_token_never_returned_witness:
  "calls example_engine example_env init_cache [example_world 0] =
     ([Inr (JStr ''tok'')], \<lparr>accessToken = JStr ''tok'', tokenExpiry = Some (Fin 3300000)\<rparr>,
      [token_request example_env])
   \<and> getZoomAccessToken example_engine example_env (example_world 3300000)
        \<lparr>accessToken = JStr ''tok'', tokenExpiry = Some (Fin 3300000)\<rparr> =
     (Inr (JStr ''tok''), \<lparr>accessToken = JStr ''tok'', tokenExpiry = Some (Fin 6600000)\<rparr>,
      [token_request example_env])"
proof -
  have a: "calls example_engine example_env init_cache [example_world 0] =
     ([Inr (JStr ''tok'')], \<lparr>accessToken = JStr ''tok'', tokenExpiry = Some (Fin 3300000)\<rparr>,
      [token_request example_env])"
    by (simp add: example_first_call)
  have b: "getZoomAccessToken example_engine example_env (example_world 3300000)
        \<lparr>accessToken = JStr ''tok'', tokenExpiry = Some (Fin 3300000)\<rparr> =
     (Inr (JStr ''tok''), \<lparr>accessToken = JStr ''tok'', tokenExpiry = Some (Fin 6600000)\<rparr>,
      [token_request example_env])"
    by (simp add: getZoomAccessToken_def try_block_def exchange_def cache_valid_def
      example_engine_def example_env_def example_world_def is_set_def env_value_def exact_int_def)
  from expired_token_never_returned[OF a b, where x = 3300000 and v = "JStr ''tok''"] a b
  show ?thesis by simp
qed

section \<open>Properties of the handlers\<close>

lemma get_opt_not_nullish: "get_opt b k \<noteq> JUndefined \<Longrightarrow> \<not> nullish b"
  by (cases b) auto

lemma checkout_calls:
  "snd (post_create_checkout_session E stripe body) = snd (checkout_try E stripe body)"
  by (simp add: post_create_checkout_session_def split: prod.splits sum.splits)

lemma round_14900: "\<lfloor>29801 / 2 :: rat\<rfloor> = 14900"
  by (simp add: floor_eq_iff)

lemma sessionConfig_line_items:
  assumes "sessionConfig E (JStr ''p1'') planName (JStr ''usd'') (JNum (Fin 149)) successUrl cancelUrl
             = Inr config"
  shows "get_opt config ''line_items'' =
           JArr [JObj [(''price_data'', JObj
                          [(''currency'', JStr ''usd''), (''product'', JStr ''p1''),
                           (''unit_amount'', JNum (Fin 14900)),
                           (''recurring'', JObj [(''interval'', JStr ''month'')])]),
                       (''quantity'', JNum (Fin 1))]]"
  using assms
  by (auto simp: sessionConfig_def js_or_def round_14900 exact_int_def split: sum.splits)

text \<open>
  C5. For a request whose body has \<^verbatim>\<open>productId\<close> \<^verbatim>\<open>"p1"\<close>, \<^verbatim>\<open>amount\<close> \<open>149\<close> and \<^verbatim>\<open>currency\<close>
  \<^verbatim>\<open>"usd"\<close>, every session configuration the handler passes to
  \<^verbatim>\<open>stripe.checkout.sessions.create\<close> has exactly one line item, whose price data has
  \<^verbatim>\<open>unit_amount\<close> \<open>14900\<close> (\<^verbatim>\<open>Math.round(149 * 100)\<close>) and the recurring interval
  \<^verbatim>\<open>month\<close>; and the handler does pass one, and only one, when Stripe is initialised and
  \<^verbatim>\<open>successUrl\<close> converts to a string.
\<close>

theorem checkout_line_item_unit_amount:
  assumes "get_opt body ''productId'' = JStr ''p1''"
    and "get_opt body ''amount'' = JNum (Fin 149)"
    and "get_opt body ''currency'' = JStr ''usd''"
  shows "(\<forall>config. SessionsCreate config \<in> set (snd (post_create_checkout_session E stripe body)) \<longrightarrow>
            get_opt config ''line_items'' =
              JArr [JObj [(''price_data'', JObj
                            [(''currency'', JStr ''usd''), (''product'', JStr ''p1''),
                             (''unit_amount'', JNum (Fin 14900)),
                             (''recurring'', JObj [(''interval'', JStr ''month'')])]),
                          (''quantity'', JNum (Fin 1))]])
       \<and> (stripe = Some S \<and> ToString E (get_opt body ''successUrl'') = Inr su \<longrightarrow>
            (\<exists>config. snd (post_create_checkout_session E stripe body) = [SessionsCreate config]))"
proof (intro conjI allI impI)
  fix config
  assume "SessionsCreate config \<in> set (snd (post_create_checkout_session E stripe body))"
  then have "sessionConfig E (JStr ''p1'') (get_opt body ''planName'') (JStr ''usd'') (JNum (Fin 149))
               (get_opt body ''successUrl'') (get_opt body ''cancelUrl'') = Inr config"
    using assms
    by (auto simp: checkout_calls checkout_try_def split: if_splits option.splits sum.splits)
  then show "get_opt config ''line_items'' =
              JArr [JObj [(''price_data'', JObj
                            [(''currency'', JStr ''usd''), (''product'', JStr ''p1''),
                             (''unit_amount'', JNum (Fin 14900)),
                             (''recurring'', JObj [(''interval'', JStr ''month'')])]),
                          (''quantity'', JNum (Fin 1))]]"
    by (rule sessionConfig_line_items)
next
  assume a: "stripe = Some S \<and> ToString E (get_opt body ''successUrl'') = Inr su"
  from assms(1) have nn: "\<not> nullish body" by (cases body) auto
  from a assms obtain config where
    "sessionConfig E (get_opt body ''productId'') (get_opt body ''planName'')
       (get_opt body ''currency'') (get_opt body ''amount'')
       (get_opt body ''successUrl'') (get_opt body ''cancelUrl'') = Inr config"
    by (auto simp: sessionConfig_def js_or_def)
  with a nn assms(1)
  show "\<exists>config. snd (post_create_checkout_session E stripe body) = [SessionsCreate config]"
    by (auto simp: checkout_calls checkout_try_def split: sum.splits)
qed

theorem checkout_line_item_unit_amount_witness:
  "get_opt example_checkout_body ''productId'' = JStr ''p1''
   \<and> get_opt example_checkout_body ''amount'' = JNum (Fin 149)
   \<and> get_opt example_checkout_body ''currency'' = JStr ''usd''
   \<and> (\<exists>config. snd (post_create_checkout_session example_engine (Some example_stripe)
                      example_checkout_body) = [SessionsCreate config]
                \<and> get_opt config ''line_items'' =
                    JArr [JObj [(''price_data'', JObj
                            [(''currency'', JStr ''usd''), (''product'', JStr ''p1''),
                             (''unit_amount'', JNum (Fin 14900)),
                             (''recurring'', JObj [(''interval'', JStr ''month'')])]),
                          (''quantity'', JNum (Fin 1))]])"
proof -
  have b: "get_opt example_checkout_body ''productId'' = JStr ''p1''"
    "get_opt example_checkout_body ''amount'' = JNum (Fin 149)"
    "get_opt example_checkout_body ''currency'' = JStr ''usd''"
    "ToString example_engine (get_opt example_checkout_body ''successUrl'') =
       Inr ''https://meetsync.app/welcome?plan=pro''"
    by (simp_all add: example_checkout_body_def)
  from checkout_line_item_unit_amount[OF b(1,2,3), where E = example_engine
      and stripe = "Some example_stripe" and S = example_stripe
      and su = "''https://meetsync.app/welcome?plan=pro''"] b
  show ?thesis by auto
qed

text \<open>
  When \<^verbatim>\<open>constructEvent\<close> throws (the signature does not verify), and also when \<^verbatim>\<open>stripe\<close>
  is \<^verbatim>\<open>null\<close>, the handler answers 400 with the body \<^verbatim>\<open>Webhook Error: \<close> followed by the
  error's message, and logs nothing but the failure: the event is not processed.
\<close>

lemma webhook_verification_failure:
  "(stripe = Some S
      \<and> webhooks_constructEvent S body sig (env_value (STRIPE_WEBHOOK_SECRET env)) = Inl err \<longrightarrow>
        post_stripe_webhook E env stripe body sig =
          (Inr (Res 400 (Send (''Webhook Error: '' @ message err))),
           [VerificationFailed (message err)]))
   \<and> (stripe = None \<longrightarrow>
        (\<exists>m. post_stripe_webhook E env stripe body sig =
           (Inr (Res 400 (Send (''Webhook Error: '' @ m))), [VerificationFailed m])))"
  by (simp add: post_stripe_webhook_def constructEvent_def)

text \<open>
  Had \<^verbatim>\<open>constructEvent\<close> returned a \<^verbatim>\<open>checkout.session.completed\<close> event (which carries its
  session as \<^verbatim>\<open>data.object\<close>), the handler would answer 200 with \<^verbatim>\<open>{received: true}\<close>.
\<close>

lemma webhook_event_acknowledged:
  assumes "stripe = Some S"
    and "webhooks_constructEvent S body sig (env_value (STRIPE_WEBHOOK_SECRET env)) = Inr event"
    and "get_opt event ''type'' = JStr ''checkout.session.completed''"
    and "get_opt event ''data'' = JObj d" and "map_of d ''object'' = Some (JObj session)"
  shows "fst (post_stripe_webhook E env stripe body sig) =
           Inr (Res 200 (Json (JObj [(''received'', JBool True)])))"
proof -
  from assms(3) obtain ev where ev: "event = JObj ev" by (cases event) auto
  with assms have "\<exists>logged. handle_event E event = Inr logged"
    by (auto simp: handle_event_def split: option.splits)
  with assms show ?thesis
    by (auto simp: post_stripe_webhook_def constructEvent_def)
qed

text \<open>
  C6 fails on the code in its second half. A correctly signed
  \<^verbatim>\<open>checkout.session.completed\<close> request reaches the handler with its body already parsed
  by the application-wide \<^verbatim>\<open>express.json()\<close>, so \<^verbatim>\<open>constructEvent\<close> is handed an object
  instead of the signed bytes and throws: the route answers 400 \<^verbatim>\<open>Webhook Error: ...\<close> and
  processes nothing, where the claim says 200 \<^verbatim>\<open>{received: true}\<close>. On the raw bytes, which
  the route's \<^verbatim>\<open>express.raw\<close> was meant to supply, the same signature verifies and the
  handler answers 200.
\<close>

theorem signed_webhook_answered_400:
  "route_stripe_webhook example_engine example_env (Some example_stripe)
       \<lparr>raw_body = ''signed bytes'', parsed_body = example_event,
        stripe_signature = JStr ''t=1,v1=good''\<rparr> =
     (Inr (Res 400 (Send ''Webhook Error: Webhook payload must be provided as a string or a Buffer'')),
      [VerificationFailed ''Webhook payload must be provided as a string or a Buffer''])
   \<and> post_stripe_webhook example_engine example_env (Some example_stripe)
       (JStr ''signed bytes'') (JStr ''t=1,v1=good'') =
     (Inr (Res 200 (Json (JObj [(''received'', JBool True)]))),
      [PaymentSuccessful (JStr ''cs_test_1''), CustomerEmail (JStr ''ada@example.org''),
       Plan (JStr ''Pro'')])"
  by (simp add: route_stripe_webhook_def post_stripe_webhook_def constructEvent_def
      handle_event_def example_stripe_def example_event_def new_Error_def)

text \<open>
  C7. The answer of \<^verbatim>\<open>GET /\<close> is the same for any two environments that agree on which of
  the four reported variables are set (present and not empty, as the code tests them),
  whatever the values are; and the strings that occur in it are the fixed keys and
  texts of the handler, none taken from the environment.
\<close>

theorem root_reports_presence_only:
  assumes "is_set (ZOOM_ACCOUNT_ID e1) = is_set (ZOOM_ACCOUNT_ID e2)"
    and "is_set (ZOOM_CLIENT_ID e1) = is_set (ZOOM_CLIENT_ID e2)"
    and "is_set (ZOOM_CLIENT_SECRET e1) = is_set (ZOOM_CLIENT_SECRET e2)"
    and "is_set (STRIPE_SECRET_KEY e1) = is_set (STRIPE_SECRET_KEY e2)"
  shows "get_root e1 = get_root e2
       \<and> (\<exists>r. get_root e1 = Res 200 (Json r)
            \<and> strings_of r =
               [''status'', ''ok'', ''service'', ''MeetSync Zoom + Stripe Server'', ''endpoints'',
                ''POST /api/create-meeting'', ''Create a new Zoom meeting'',
                ''POST /api/create-checkout-session'', ''Create Stripe checkout session'',
                ''env'', ''hasAccountId'', ''hasClientId'', ''hasClientSecret'', ''hasStripeKey''])"
  using assms by (simp add: get_root_def js_bool_def truthy_env_value)

theorem root_reports_presence_only_witness:
  "get_root example_env =
     get_root \<lparr>ZOOM_ACCOUNT_ID = Some ''other-account'', ZOOM_CLIENT_ID = Some ''other-id'',
               ZOOM_CLIENT_SECRET = Some ''other-secret'', STRIPE_SECRET_KEY = Some ''sk_live'',
               STRIPE_WEBHOOK_SECRET = None\<rparr>"
  using root_reports_presence_only
      [where ?e1.0 = example_env
         and ?e2.0 = "\<lparr>ZOOM_ACCOUNT_ID = Some ''other-account'', ZOOM_CLIENT_ID = Some ''other-id'',
               ZOOM_CLIENT_SECRET = Some ''other-secret'', STRIPE_SECRET_KEY = Some ''sk_live'',
               STRIPE_WEBHOOK_SECRET = None\<rparr>"]
  by (simp add: example_env_def is_set_def env_value_def)

text \<open>
  C9, as stated, fails. When \<^verbatim>\<open>req.body\<close> is \<^verbatim>\<open>undefined\<close> (no JSON body was parsed, and the
  parser left none), the destructuring at line 226 throws and the outer \<^verbatim>\<open>catch\<close> answers
  500 with \<^verbatim>\<open>{success: false, error: ...}\<close>.
\<close>

theorem welcome_email_fails_without_body:
  "post_send_welcome_email example_engine (Some example_stripe) JUndefined =
     (Res 500 (Json (JObj [(''success'', JBool False), (''error'', JStr ''Cannot read properties'')])),
      [])"
  by (simp add: post_send_welcome_email_def welcome_try_def TypeError_def new_Error_def
      example_engine_def)

text \<open>
  C9, amended. For every request whose \<^verbatim>\<open>req.body\<close> is neither \<^verbatim>\<open>undefined\<close> nor \<^verbatim>\<open>null\<close>,
  whatever it holds, and whether retrieving the session succeeds, throws or cannot be
  tried (\<^verbatim>\<open>stripe\<close> being \<^verbatim>\<open>null\<close>), the handler answers 200 with
  \<^verbatim>\<open>{success: true, message: 'Welcome email queued'}\<close>; when \<^verbatim>\<open>req.body\<close> is \<^verbatim>\<open>undefined\<close> or
  \<^verbatim>\<open>null\<close> it answers 500 with \<^verbatim>\<open>{success: false, error: ...}\<close>, the error being the
  message of the \<^verbatim>\<open>TypeError\<close>, and retrieves nothing.
\<close>

theorem welcome_email_success_envelope:
  "(\<not> nullish body \<longrightarrow>
      fst (post_send_welcome_email E stripe body) =
        Res 200 (Json (JObj [(''success'', JBool True), (''message'', JStr ''Welcome email queued'')])))
   \<and> (nullish body \<longrightarrow>
      post_send_welcome_email E stripe body =
        (Res 500 (Json (JObj [(''success'', JBool False),
                              (''error'', JStr (TypeErrorMessage E body ''sessionId''))])),
         []))"
  by (simp add: post_send_welcome_email_def welcome_try_def Let_def TypeError_def new_Error_def)

theorem welcome_email_success_envelope_witness:
  "\<not> nullish (JObj [(''sessionId'', JStr ''cs_test_1''), (''plan'', JStr ''Pro'')])
   \<and> post_send_welcome_email example_engine (Some example_stripe)
        (JObj [(''sessionId'', JStr ''cs_test_1''), (''plan'', JStr ''Pro'')]) =
      (Res 200 (Json (JObj [(''success'', JBool True), (''message'', JStr ''Welcome email queued'')])),
       [SessionsRetrieve (JStr ''cs_test_1'')])
   \<and> nullish JNull
   \<and> post_send_welcome_email example_engine None JNull =
      (Res 500 (Json (JObj [(''success'', JBool False), (''error'', JStr ''Cannot read properties'')])),
       [])"
  using welcome_email_success_envelope
      [where body = "JObj [(''sessionId'', JStr ''cs_test_1''), (''plan'', JStr ''Pro'')]"
         and E = example_engine and stripe = "Some example_stripe"]
    welcome_email_success_envelope
      [where body = JNull and E = example_engine and stripe = None]
  by (simp add: post_send_welcome_email_def welcome_try_def retrieve_customer_email_def
      example_stripe_def example_engine_def)

lemma meeting_sent:
  "snd (snd (post_create_meeting E env w c body)) = snd (snd (meeting_try E env w c body))"
  by (simp add: post_create_meeting_def split: prod.splits sum.splits)

lemma sent_token_request:
  assumes "getZoomAccessToken E env w c = (r, c', sent)" and "req \<in> set sent"
  shows "req = token_request env"
proof (cases "cache_valid c (now_check w)")
  case True
  with assms show ?thesis by (auto simp: getZoomAccessToken_def)
next
  case False
  with assms show ?thesis
    by (auto simp: miss_cases split: if_splits prod.splits sum.splits)
qed

lemma token_request_url: "url (token_request env) \<noteq> ''https://api.zoom.us/v2/users/me/meetings''"
  by (simp add: token_request_def)

lemma meeting_try_sent:
  assumes "req \<in> set (snd (snd (meeting_try E env w c body)))"
    and "url req = ''https://api.zoom.us/v2/users/me/meetings''"
  shows "data req = meetingData (get_opt body ''topic'') (get_opt body ''duration'')"
proof -
  obtain r c' sent where g: "getZoomAccessToken E env w c = (r, c', sent)"
    by (cases "getZoomAccessToken E env w c")
  from assms(2) token_request_url have "req \<noteq> token_request env" by auto
  with sent_token_request[OF g] have "req \<notin> set sent" by blast
  with assms g show ?thesis
    by (auto simp: meeting_try_def meeting_request_def Let_def
        split: if_splits sum.splits prod.splits)
qed

lemma meeting_try_agree:
  assumes "nullish b1 = nullish b2" and "get_opt b1 ''topic'' = get_opt b2 ''topic''"
    and "get_opt b1 ''duration'' = get_opt b2 ''duration''"
  shows "post_create_meeting E env w c b1 = post_create_meeting E env w c b2"
proof (cases "nullish b1")
  case True
  with assms(1) show ?thesis
    by (simp add: post_create_meeting_def meeting_try_def TypeError_def new_Error_def)
next
  case False
  with assms(1) have n: "\<not> nullish b1" "\<not> nullish b2" by simp_all
  have "meeting_try E env w c b1 = meeting_try E env w c b2"
    unfolding meeting_try_def assms(2) assms(3) using n by simp
  then show ?thesis by (simp add: post_create_meeting_def)
qed

lemma meeting_try_sends:
  assumes "\<not> nullish body" and "getZoomAccessToken E env w c = (Inr token, c', sent)"
    and "ToString E token = Inr bearer"
  shows "snd (snd (meeting_try E env w c body)) =
           sent @ [meeting_request bearer
                     (meetingData (get_opt body ''topic'') (get_opt body ''duration''))]"
  using assms by (simp add: meeting_try_def Let_def split: sum.splits)

lemma token_request_url_eq: "url (token_request env) = ''https://zoom.us/oauth/token''"
  by (simp add: token_request_def)

lemma example_zoom_token:
  "getZoomAccessToken example_engine example_env (example_zoom 0) init_cache =
     (Inr (JStr ''tok''), \<lparr>accessToken = JStr ''tok'', tokenExpiry = Some (Fin 3300000)\<rparr>,
      [token_request example_env])"
  by (simp add: getZoomAccessToken_def try_block_def exchange_def cache_valid_def init_cache_def
      example_engine_def example_env_def example_zoom_def is_set_def env_value_def
      token_request_url_eq exact_int_def)

lemma example_meeting_sent:
  "snd (snd (post_create_meeting example_engine example_env (example_zoom 0) init_cache
       (JObj [(''startTime'', JStr ''2026-01-01T10:00:00Z'')]))) =
     [token_request example_env,
      meeting_request ''tok''
        (JObj [(''topic'', JStr ''MeetSync Call''), (''type'', JNum (Fin 1)),
               (''duration'', JNum (Fin 60)),
               (''settings'', JObj
                  [(''host_video'', JBool True), (''participant_video'', JBool True),
                   (''join_before_host'', JBool True), (''waiting_room'', JBool False),
                   (''mute_upon_entry'', JBool False)])])]"
proof -
  have "snd (snd (meeting_try example_engine example_env (example_zoom 0) init_cache
       (JObj [(''startTime'', JStr ''2026-01-01T10:00:00Z'')]))) =
     [token_request example_env] @
     [meeting_request ''tok''
        (meetingData (get_opt (JObj [(''startTime'', JStr ''2026-01-01T10:00:00Z'')]) ''topic'')
           (get_opt (JObj [(''startTime'', JStr ''2026-01-01T10:00:00Z'')]) ''duration''))]"
    by (rule meeting_try_sends[OF _ example_zoom_token]) simp_all
  then show ?thesis
    by (simp add: meeting_sent meetingData_def js_or_def)
qed

text \<open>
  C10. The handler's outcome is the same for any two bodies that agree on \<^verbatim>\<open>topic\<close> and
  \<^verbatim>\<open>duration\<close>, so \<^verbatim>\<open>startTime\<close> is never used. Every request sent to the meetings
  endpoint carries the properties \<^verbatim>\<open>topic\<close>, \<^verbatim>\<open>type\<close>, \<^verbatim>\<open>duration\<close> and \<^verbatim>\<open>settings\<close> only:
  \<^verbatim>\<open>type\<close> is \<open>1\<close>, there is no start time, \<^verbatim>\<open>topic\<close> is the body's or, when that is absent
  (or falsy), \<^verbatim>\<open>'MeetSync Call'\<close>, and \<^verbatim>\<open>duration\<close> is the body's or \<open>60\<close>. And the request
  is sent whenever the accessor returned a token. (The handler reads the same in all
  three copies of the server.)
\<close>

theorem meeting_payload_ignores_startTime:
  "(nullish b1 = nullish b2 \<and> get_opt b1 ''topic'' = get_opt b2 ''topic''
      \<and> get_opt b1 ''duration'' = get_opt b2 ''duration'' \<longrightarrow>
        post_create_meeting E env w c b1 = post_create_meeting E env w c b2)
   \<and> (\<forall>req \<in> set (snd (snd (post_create_meeting E env w c body))).
        url req = ''https://api.zoom.us/v2/users/me/meetings'' \<longrightarrow>
          get_opt (data req) ''type'' = JNum (Fin 1)
          \<and> get_opt (data req) ''start_time'' = JUndefined
          \<and> get_opt (data req) ''startTime'' = JUndefined
          \<and> get_opt (data req) ''topic'' =
              (if truthy (get_opt body ''topic'') then get_opt body ''topic''
               else JStr ''MeetSync Call'')
          \<and> get_opt (data req) ''duration'' =
              (if truthy (get_opt body ''duration'') then get_opt body ''duration''
               else JNum (Fin 60))
          \<and> (\<exists>t d s. data req =
                JObj [(''topic'', t), (''type'', JNum (Fin 1)), (''duration'', d), (''settings'', s)]))
   \<and> (\<not> nullish body \<and> getZoomAccessToken E env w c = (Inr token, c', sent)
        \<and> ToString E token = Inr bearer \<longrightarrow>
          (\<exists>req. snd (snd (post_create_meeting E env w c body)) = sent @ [req]
             \<and> url req = ''https://api.zoom.us/v2/users/me/meetings''))"
proof (intro conjI ballI impI)
  assume "nullish b1 = nullish b2 \<and> get_opt b1 ''topic'' = get_opt b2 ''topic''
      \<and> get_opt b1 ''duration'' = get_opt b2 ''duration''"
  then show "post_create_meeting E env w c b1 = post_create_meeting E env w c b2"
    by (intro meeting_try_agree) simp_all
next
  fix req
  assume a: "req \<in> set (snd (snd (post_create_meeting E env w c body)))"
    and u: "url req = ''https://api.zoom.us/v2/users/me/meetings''"
  from a have "req \<in> set (snd (snd (meeting_try E env w c body)))"
    by (simp only: meeting_sent)
  from meeting_try_sent[OF this u]
  have d: "data req = meetingData (get_opt body ''topic'') (get_opt body ''duration'')" .
  from d show "get_opt (data req) ''type'' = JNum (Fin 1)" by (simp add: meetingData_def)
  from d show "get_opt (data req) ''start_time'' = JUndefined" by (simp add: meetingData_def)
  from d show "get_opt (data req) ''startTime'' = JUndefined" by (simp add: meetingData_def)
  from d show "get_opt (data req) ''topic'' =
              (if truthy (get_opt body ''topic'') then get_opt body ''topic''
               else JStr ''MeetSync Call'')" by (simp add: meetingData_def js_or_def)
  from d show "get_opt (data req) ''duration'' =
              (if truthy (get_opt body ''duration'') then get_opt body ''duration''
               else JNum (Fin 60))" by (simp add: meetingData_def js_or_def)
  from d show "\<exists>t d s. data req =
                JObj [(''topic'', t), (''type'', JNum (Fin 1)), (''duration'', d), (''settings'', s)]"
    by (simp add: meetingData_def)
next
  assume "\<not> nullish body \<and> getZoomAccessToken E env w c = (Inr token, c', sent)
        \<and> ToString E token = Inr bearer"
  then have "snd (snd (post_create_meeting E env w c body)) =
      sent @ [meeting_request bearer
                (meetingData (get_opt body ''topic'') (get_opt body ''duration''))]"
    by (simp add: meeting_sent meeting_try_sends)
  then show "\<exists>req. snd (snd (post_create_meeting E env w c body)) = sent @ [req]
             \<and> url req = ''https://api.zoom.us/v2/users/me/meetings''"
    by (simp add: meeting_request_def)
qed

theorem meeting_payload_ignores_startTime_witness:
  "post_create_meeting example_engine example_env (example_zoom 0) init_cache
       (JObj [(''startTime'', JStr ''2026-01-01T10:00:00Z'')]) =
     post_create_meeting example_engine example_env (example_zoom 0) init_cache (JObj [])
   \<and> snd (snd (post_create_meeting example_engine example_env (example_zoom 0) init_cache
       (JObj [(''startTime'', JStr ''2026-01-01T10:00:00Z'')]))) =
     [token_request example_env,
      meeting_request ''tok''
        (JObj [(''topic'', JStr ''MeetSync Call''), (''type'', JNum (Fin 1)),
               (''duration'', JNum (Fin 60)),
               (''settings'', JObj
                  [(''host_video'', JBool True), (''participant_video'', JBool True),
                   (''join_before_host'', JBool True), (''waiting_room'', JBool False),
                   (''mute_upon_entry'', JBool False)])])]"
proof (rule conjI)
  note agree = meeting_payload_ignores_startTime
      [where ?b1.0 = "JObj [(''startTime'', JStr ''2026-01-01T10:00:00Z'')]" and ?b2.0 = "JObj []"
         and E = example_engine and env = example_env and w = "example_zoom 0" and c = init_cache,
       THEN conjunct1, rule_format]
  show "post_create_meeting example_engine example_env (example_zoom 0) init_cache
       (JObj [(''startTime'', JStr ''2026-01-01T10:00:00Z'')]) =
     post_create_meeting example_engine example_env (example_zoom 0) init_cache (JObj [])"
    by (rule agree) simp
qed (rule example_meeting_sent)

end
